theory Spec2Isabelle
  imports Complex_Main
begin

section \<open>Wave particle field: shaders and interaction state\<close>

text \<open>
  The particle field consists of a GLSL vertex shader, a GLSL fragment shader and a
  React component that owns the uniforms and advances them once per rendered frame.
  GLSL \<open>float\<close> and JavaScript \<open>number\<close> are embedded as \<^typ>\<open>real\<close>: every
  arithmetic operation is the exact one, rounding and the special values of IEEE
  arithmetic are outside the model. The one operation of the shaders that is partial
  on the reals, the division by the view-space depth, returns an \<open>option\<close>.
\<close>

subsection \<open>GLSL vectors and matrices\<close>

datatype vec2 = Vec2 (v2x: real) (v2y: real)

datatype vec3 = Vec3 (v3x: real) (v3y: real) (v3z: real)

datatype vec4 = Vec4 (v4x: real) (v4y: real) (v4z: real) (v4w: real)

text \<open>A \<open>mat4\<close> is kept by its rows, so that \<open>M * v\<close> is one dot product per row.\<close>

datatype mat4 = Mat4 (row0: vec4) (row1: vec4) (row2: vec4) (row3: vec4)

definition dot4 :: "vec4 \<Rightarrow> vec4 \<Rightarrow> real" where
  "dot4 a b = v4x a * v4x b + v4y a * v4y b + v4z a * v4z b + v4w a * v4w b"

definition mat_mul_vec :: "mat4 \<Rightarrow> vec4 \<Rightarrow> vec4" where
  "mat_mul_vec m v = Vec4 (dot4 (row0 m) v) (dot4 (row1 m) v) (dot4 (row2 m) v) (dot4 (row3 m) v)"

definition mat4_identity :: mat4 where
  "mat4_identity = Mat4 (Vec4 1 0 0 0) (Vec4 0 1 0 0) (Vec4 0 0 1 0) (Vec4 0 0 0 1)"

text \<open>\<open>a * b\<close> and \<open>a - b\<close> on \<open>vec2\<close> work componentwise.\<close>

definition vec2_mul :: "vec2 \<Rightarrow> vec2 \<Rightarrow> vec2" where
  "vec2_mul a b = Vec2 (v2x a * v2x b) (v2y a * v2y b)"

definition vec2_sub :: "vec2 \<Rightarrow> vec2 \<Rightarrow> vec2" where
  "vec2_sub a b = Vec2 (v2x a - v2x b) (v2y a - v2y b)"

definition length_vec2 :: "vec2 \<Rightarrow> real" where
  "length_vec2 v = sqrt (v2x v * v2x v + v2y v * v2y v)"

definition distance_vec2 :: "vec2 \<Rightarrow> vec2 \<Rightarrow> real" where
  "distance_vec2 a b = length_vec2 (vec2_sub a b)"

text \<open>
  A floating-point division whose divisor may be zero: GLSL leaves the quotient
  undefined there, so the model has no value for it.
\<close>

definition glsl_div :: "real \<Rightarrow> real \<Rightarrow> real option" where
  "glsl_div a b = (if b = 0 then None else Some (a / b))"

subsection \<open>Uniforms\<close>

record uniforms =
  uTime :: real
  uColor :: vec3
  uSpeed :: real
  uNoiseDensity :: real
  uNoiseStrength :: real
  uFrequency :: real
  uAmplitude :: real
  uMouse :: vec2
  uHoverState :: real

subsection \<open>Vertex shader\<close>

text \<open>
  The locals of \<open>main\<close> in the order of the shader text. \<open>modelPosition\<close> is the
  vertex in world space before the displacement; \<open>displaced\<close> is the same variable
  after \<open>modelPosition.z += elevation + distortion\<close>. The shader's helper \<open>random\<close> and
  the uniforms \<open>uNoiseDensity\<close> and \<open>uNoiseStrength\<close> are never used by \<open>main\<close>.
\<close>

definition modelPosition :: "mat4 \<Rightarrow> vec3 \<Rightarrow> vec4" where
  "modelPosition modelMatrix position =
     mat_mul_vec modelMatrix (Vec4 (v3x position) (v3y position) (v3z position) 1)"

definition elevation :: "uniforms \<Rightarrow> vec4 \<Rightarrow> real" where
  "elevation u mp =
     sin (v4x mp * uFrequency u + uTime u * uSpeed u) * uAmplitude u
     + sin (v4y mp * uFrequency u * 0.5 + uTime u * uSpeed u * 0.5) * uAmplitude u * 0.5"

definition interactionVec :: "uniforms \<Rightarrow> vec4 \<Rightarrow> vec2" where
  "interactionVec u mp = vec2_sub (vec2_mul (uMouse u) (Vec2 15 10)) (Vec2 (v4x mp) (v4y mp))"

definition dist_mouse :: "uniforms \<Rightarrow> vec4 \<Rightarrow> real" where
  "dist_mouse u mp = length_vec2 (interactionVec u mp)"

definition influence :: "real \<Rightarrow> real" where
  "influence d = max 0 (1 - d / 3)"

definition distortion :: "uniforms \<Rightarrow> vec4 \<Rightarrow> real" where
  "distortion u mp = sin (dist_mouse u mp * 3 - uTime u * 5) * influence (dist_mouse u mp) * 2 * uHoverState u"

definition displaced :: "uniforms \<Rightarrow> vec4 \<Rightarrow> vec4" where
  "displaced u mp = Vec4 (v4x mp) (v4y mp) (v4z mp + (elevation u mp + distortion u mp)) (v4w mp)"

definition pointSize :: "real \<Rightarrow> real option" where
  "pointSize viewZ = map_option (\<lambda>q. 3 * q) (glsl_div 15 (- viewZ))"

record vertex_out =
  vUv :: vec2
  gl_Position :: vec4
  gl_PointSize :: "real option"
  vElevation :: real
  vDistance :: real

definition vertex_main :: "uniforms \<Rightarrow> mat4 \<Rightarrow> mat4 \<Rightarrow> mat4 \<Rightarrow> vec3 \<Rightarrow> vec2 \<Rightarrow> vertex_out" where
  "vertex_main u modelMatrix viewMatrix projectionMatrix position uv =
     (let mp0 = modelPosition modelMatrix position;
          mp = displaced u mp0;
          viewPosition = mat_mul_vec viewMatrix mp;
          projectedPosition = mat_mul_vec projectionMatrix viewPosition
      in \<lparr> vUv = uv,
           gl_Position = projectedPosition,
           gl_PointSize = pointSize (v4z viewPosition),
           vElevation = v4z mp,
           vDistance = dist_mouse u mp0 \<rparr>)"

subsection \<open>Fragment shader\<close>

text \<open>\<open>None\<close> is a discarded fragment, \<open>Some c\<close> the colour written to \<open>gl_FragColor\<close>.\<close>

definition fragment_alpha :: "real \<Rightarrow> real" where
  "fragment_alpha vElev = 0.8 + vElev * 0.1"

definition fragment_main :: "vec3 \<Rightarrow> real \<Rightarrow> vec2 \<Rightarrow> vec4 option" where
  "fragment_main color vElev gl_PointCoord =
     (let distanceToCenter = distance_vec2 gl_PointCoord (Vec2 0.5 0.5)
      in if distanceToCenter > 0.5 then None
         else Some (Vec4 (v3x color) (v3y color) (v3z color) (fragment_alpha vElev)))"

subsection \<open>The component: uniforms, frame callback and pointer handlers\<close>

text \<open>
  \<open>THREE.MathUtils.lerp\<close> of the three.js library: the linear interpolation
  \<open>(1 - t) * x + t * y\<close>.
\<close>

definition lerp :: "real \<Rightarrow> real \<Rightarrow> real \<Rightarrow> real" where
  "lerp x y t = (1 - t) * x + t * y"

text \<open>
  The state of one \<open>WaveParticles\<close> instance: the React state \<open>hovered\<close>, whether
  \<open>materialRef.current\<close> is set, and the uniforms object shared with the material.
\<close>

record wave_state =
  hovered :: bool
  material_attached :: bool
  shader_uniforms :: uniforms

definition initial_uniforms :: "vec3 \<Rightarrow> uniforms" where
  "initial_uniforms color =
     \<lparr> uTime = 0, uColor = color, uSpeed = 0.8, uNoiseDensity = 1.5, uNoiseStrength = 0.2,
       uFrequency = 0.5, uAmplitude = 1.2, uMouse = Vec2 0 0, uHoverState = 0 \<rparr>"

definition initial_state :: "vec3 \<Rightarrow> bool \<Rightarrow> wave_state" where
  "initial_state color attached =
     \<lparr> hovered = False, material_attached = attached, shader_uniforms = initial_uniforms color \<rparr>"

text \<open>
  The \<open>useFrame\<close> callback, given \<open>state.clock.getElapsedTime()\<close> and
  \<open>state.pointer\<close>. Without a material it returns at once.
\<close>

definition useFrame :: "wave_state \<Rightarrow> real \<Rightarrow> vec2 \<Rightarrow> wave_state" where
  "useFrame s elapsed pointer =
     (if \<not> material_attached s then s
      else
        let u1 = (shader_uniforms s)\<lparr> uTime := elapsed \<rparr>;
            targetHover = (if hovered s then 1 else 0);
            u2 = u1\<lparr> uHoverState := lerp (uHoverState u1) targetHover 0.1 \<rparr>;
            u3 = (if hovered s then u2\<lparr> uMouse := pointer \<rparr> else u2)
        in s\<lparr> shader_uniforms := u3 \<rparr>)"

definition onPointerOver :: "wave_state \<Rightarrow> wave_state" where
  "onPointerOver s = s\<lparr> hovered := True \<rparr>"

definition onPointerOut :: "wave_state \<Rightarrow> wave_state" where
  "onPointerOut s = s\<lparr> hovered := False \<rparr>"

definition onPointerMove :: "wave_state \<Rightarrow> wave_state" where
  "onPointerMove s = s\<lparr> hovered := True \<rparr>"

text \<open>What the host delivers to the component, one event at a time.\<close>

datatype event = PointerOver | PointerOut | PointerMove | FrameTick real vec2

fun step :: "wave_state \<Rightarrow> event \<Rightarrow> wave_state" where
  "step s PointerOver = onPointerOver s"
| "step s PointerOut = onPointerOut s"
| "step s PointerMove = onPointerMove s"
| "step s (FrameTick elapsed pointer) = useFrame s elapsed pointer"

fun run :: "wave_state \<Rightarrow> event list \<Rightarrow> wave_state" where
  "run s [] = s"
| "run s (e # es) = run (step s e) es"

text \<open>Successive frame ticks with no pointer event in between.\<close>

fun frames :: "wave_state \<Rightarrow> (real \<times> vec2) list \<Rightarrow> wave_state" where
  "frames s [] = s"
| "frames s ((elapsed, pointer) # fs) = frames (useFrame s elapsed pointer) fs"

text \<open>
  The model matrix of the \<open>points\<close> object: the rotation \<open>[-Math.PI / 3, 0, 0]\<close> about
  the x axis, with no translation and no scaling.
\<close>

definition points_modelMatrix :: mat4 where
  "points_modelMatrix =
     Mat4 (Vec4 1 0 0 0)
          (Vec4 0 (cos (- pi / 3)) (- sin (- pi / 3)) 0)
          (Vec4 0 (sin (- pi / 3)) (cos (- pi / 3)) 0)
          (Vec4 0 0 0 1)"

subsection \<open>Example inputs\<close>

text \<open>
  A vertex under the pointer at the moment both base waves and the ripple peak together,
  with the default wave parameters and full hover intensity.
\<close>

definition crest_uniforms :: uniforms where
  "crest_uniforms = (initial_uniforms (Vec3 1 1 1))
     \<lparr> uTime := 3 * pi / 10, uMouse := Vec2 (13 * pi / 375) (19 * pi / 125), uHoverState := 1 \<rparr>"

definition crest_position :: vec3 where
  "crest_position = Vec3 (13 * pi / 25) (38 * pi / 25) 0"

section \<open>Properties\<close>

subsection \<open>Bounds on the wave and the ripple\<close>

lemma sin_abs_le: "\<bar>sin (a::real) * b\<bar> \<le> \<bar>b\<bar>"
proof -
  have "\<bar>sin a * b\<bar> = \<bar>sin a\<bar> * \<bar>b\<bar>" by (simp add: abs_mult)
  also have "\<dots> \<le> 1 * \<bar>b\<bar>" by (rule mult_right_mono) simp_all
  finally show ?thesis by simp
qed

lemma influence_range: "0 \<le> influence d \<and> (0 \<le> d \<longrightarrow> influence d \<le> 1)"
  by (simp add: influence_def)

lemma length_vec2_nonneg: "0 \<le> length_vec2 v"
  by (simp add: length_vec2_def)

lemma dist_mouse_nonneg: "0 \<le> dist_mouse u mp"
  by (simp add: dist_mouse_def length_vec2_nonneg)

lemma elevation_bound: "\<bar>elevation u mp\<bar> \<le> 1.5 * \<bar>uAmplitude u\<bar>"
proof -
  let ?a = "sin (v4x mp * uFrequency u + uTime u * uSpeed u) * uAmplitude u"
  let ?b = "sin (v4y mp * uFrequency u * 0.5 + uTime u * uSpeed u * 0.5) * (uAmplitude u * 0.5)"
  have e: "elevation u mp = ?a + ?b" by (simp add: elevation_def)
  have a: "\<bar>?a\<bar> \<le> \<bar>uAmplitude u\<bar>" by (rule sin_abs_le)
  have "\<bar>?b\<bar> \<le> \<bar>uAmplitude u * 0.5\<bar>" by (rule sin_abs_le)
  then have b: "\<bar>?b\<bar> \<le> 0.5 * \<bar>uAmplitude u\<bar>" by (simp add: abs_mult)
  have "\<bar>?a + ?b\<bar> \<le> \<bar>?a\<bar> + \<bar>?b\<bar>" by (rule abs_triangle_ineq)
  with a b e show ?thesis by simp
qed

lemma distortion_bound:
  assumes "0 \<le> uHoverState u"
  shows "\<bar>distortion u mp\<bar> \<le> 2 * uHoverState u"
proof -
  let ?d = "dist_mouse u mp"
  have i: "0 \<le> influence ?d" "influence ?d \<le> 1"
    using influence_range [of ?d] dist_mouse_nonneg [of u mp] by simp_all
  have "distortion u mp = sin (?d * 3 - uTime u * 5) * (influence ?d * 2 * uHoverState u)"
    by (simp add: distortion_def)
  then have "\<bar>distortion u mp\<bar> \<le> \<bar>influence ?d * 2 * uHoverState u\<bar>"
    using sin_abs_le [of "?d * 3 - uTime u * 5" "influence ?d * 2 * uHoverState u"] by simp
  also have "\<dots> = influence ?d * (2 * uHoverState u)"
    using i assms by (simp add: abs_mult)
  also have "\<dots> \<le> 1 * (2 * uHoverState u)"
    by (rule mult_right_mono) (use i assms in simp_all)
  finally show ?thesis by simp
qed


subsection \<open>The frame callback\<close>

lemma useFrame_hover:
  "uHoverState (shader_uniforms (useFrame s e p)) =
     (if material_attached s
      then lerp (uHoverState (shader_uniforms s)) (if hovered s then 1 else 0) 0.1
      else uHoverState (shader_uniforms s))"
  by (simp add: useFrame_def Let_def)

lemma useFrame_flags:
  "hovered (useFrame s e p) = hovered s" "material_attached (useFrame s e p) = material_attached s"
  by (simp_all add: useFrame_def Let_def)

lemma useFrame_mouse:
  "uMouse (shader_uniforms (useFrame s e p)) =
     (if material_attached s \<and> hovered s then p else uMouse (shader_uniforms s))"
  by (simp add: useFrame_def Let_def)

lemma useFrame_amplitude:
  "uAmplitude (shader_uniforms (useFrame s e p)) = uAmplitude (shader_uniforms s)"
  by (simp add: useFrame_def Let_def)

lemma lerp_unit_interval:
  assumes "0 \<le> h" "h \<le> 1" "0 \<le> g" "g \<le> 1"
  shows "0 \<le> lerp h g 0.1 \<and> lerp h g 0.1 \<le> 1"
  using assms by (simp add: lerp_def)

lemma useFrame_unit_interval:
  assumes "0 \<le> uHoverState (shader_uniforms s)" "uHoverState (shader_uniforms s) \<le> 1"
  shows "0 \<le> uHoverState (shader_uniforms (useFrame s e p))
       \<and> uHoverState (shader_uniforms (useFrame s e p)) \<le> 1"
  using assms lerp_unit_interval [of "uHoverState (shader_uniforms s)" "if hovered s then 1 else 0"]
  by (simp add: useFrame_hover)

lemma step_unit_interval:
  assumes "0 \<le> uHoverState (shader_uniforms s)" "uHoverState (shader_uniforms s) \<le> 1"
  shows "0 \<le> uHoverState (shader_uniforms (step s ev))
       \<and> uHoverState (shader_uniforms (step s ev)) \<le> 1"
proof (cases ev)
  case (FrameTick e p)
  then show ?thesis using useFrame_unit_interval [OF assms] by simp
qed (use assms in \<open>simp_all add: onPointerOver_def onPointerOut_def onPointerMove_def\<close>)

lemma run_unit_interval:
  assumes "0 \<le> uHoverState (shader_uniforms s)" "uHoverState (shader_uniforms s) \<le> 1"
  shows "0 \<le> uHoverState (shader_uniforms (run s evs))
       \<and> uHoverState (shader_uniforms (run s evs)) \<le> 1"
  using assms
proof (induction evs arbitrary: s)
  case Nil
  then show ?case by simp
next
  case (Cons ev evs)
  have "0 \<le> uHoverState (shader_uniforms (step s ev))" "uHoverState (shader_uniforms (step s ev)) \<le> 1"
    using step_unit_interval [OF Cons.prems] by simp_all
  then show ?case using Cons.IH by simp
qed

lemma initial_hover: "uHoverState (shader_uniforms (initial_state c a)) = 0"
  by (simp add: initial_state_def initial_uniforms_def)

lemma reachable_unit_interval:
  "0 \<le> uHoverState (shader_uniforms (run (initial_state c a) evs))
   \<and> uHoverState (shader_uniforms (run (initial_state c a) evs)) \<le> 1"
  by (rule run_unit_interval) (simp_all add: initial_hover)

lemma frames_flags:
  "hovered (frames s fs) = hovered s" "material_attached (frames s fs) = material_attached s"
  by (induction s fs rule: frames.induct) (simp_all add: useFrame_flags)

lemma frames_unit_interval:
  assumes "0 \<le> uHoverState (shader_uniforms s)" "uHoverState (shader_uniforms s) \<le> 1"
  shows "0 \<le> uHoverState (shader_uniforms (frames s fs))
       \<and> uHoverState (shader_uniforms (frames s fs)) \<le> 1"
  using assms
proof (induction s fs rule: frames.induct)
  case (1 s)
  then show ?case by simp
next
  case (2 s e p fs)
  then show ?case using useFrame_unit_interval [of s e p] by simp
qed

lemma frames_append: "frames s (fs @ gs) = frames (frames s fs) gs"
  by (induction s fs rule: frames.induct) simp_all

lemma useFrame_rising:
  assumes "hovered s" "uHoverState (shader_uniforms s) \<le> 1"
  shows "uHoverState (shader_uniforms s) \<le> uHoverState (shader_uniforms (useFrame s e p))"
  using assms by (simp add: useFrame_hover lerp_def)

lemma useFrame_falling:
  assumes "\<not> hovered s" "0 \<le> uHoverState (shader_uniforms s)"
  shows "uHoverState (shader_uniforms (useFrame s e p)) \<le> uHoverState (shader_uniforms s)"
  using assms by (simp add: useFrame_hover lerp_def)

lemma frames_rising:
  assumes "hovered s" "0 \<le> uHoverState (shader_uniforms s)" "uHoverState (shader_uniforms s) \<le> 1"
  shows "uHoverState (shader_uniforms s) \<le> uHoverState (shader_uniforms (frames s gs))"
  using assms
proof (induction s gs rule: frames.induct)
  case (1 s)
  then show ?case by simp
next
  case (2 s e p fs)
  have "uHoverState (shader_uniforms s) \<le> uHoverState (shader_uniforms (useFrame s e p))"
    using useFrame_rising "2.prems" by simp
  moreover have "uHoverState (shader_uniforms (useFrame s e p))
      \<le> uHoverState (shader_uniforms (frames (useFrame s e p) fs))"
    using "2.IH" "2.prems" useFrame_unit_interval [of s e p] by (simp add: useFrame_flags)
  ultimately show ?case by simp
qed

lemma frames_falling:
  assumes "\<not> hovered s" "0 \<le> uHoverState (shader_uniforms s)" "uHoverState (shader_uniforms s) \<le> 1"
  shows "uHoverState (shader_uniforms (frames s gs)) \<le> uHoverState (shader_uniforms s)"
  using assms
proof (induction s gs rule: frames.induct)
  case (1 s)
  then show ?case by simp
next
  case (2 s e p fs)
  have "uHoverState (shader_uniforms (useFrame s e p)) \<le> uHoverState (shader_uniforms s)"
    using useFrame_falling "2.prems" by simp
  moreover have "uHoverState (shader_uniforms (frames (useFrame s e p) fs))
      \<le> uHoverState (shader_uniforms (useFrame s e p))"
    using "2.IH" "2.prems" useFrame_unit_interval [of s e p] by (simp add: useFrame_flags)
  ultimately show ?case by simp
qed

subsection \<open>Hover intensity\<close>

text \<open>
  Claim C3. The hover intensity \<open>uHoverState\<close> is 0 at construction and lies in \<open>[0, 1]\<close>
  after every sequence of pointer events and frame ticks; one frame tick keeps it in
  \<open>[0, 1]\<close>. Over successive frame ticks it never decreases while \<open>hovered\<close> is true and
  never increases while \<open>hovered\<close> is false.
\<close>
theorem hover_state_unit_interval_monotone:
  "uHoverState (shader_uniforms (initial_state c a)) = 0
   \<and> (\<forall>evs. 0 \<le> uHoverState (shader_uniforms (run (initial_state c a) evs))
            \<and> uHoverState (shader_uniforms (run (initial_state c a) evs)) \<le> 1)
   \<and> (0 \<le> uHoverState (shader_uniforms s) \<and> uHoverState (shader_uniforms s) \<le> 1
        \<longrightarrow> 0 \<le> uHoverState (shader_uniforms (useFrame s e p))
            \<and> uHoverState (shader_uniforms (useFrame s e p)) \<le> 1)
   \<and> (hovered s1 \<and> 0 \<le> uHoverState (shader_uniforms s1) \<and> uHoverState (shader_uniforms s1) \<le> 1
        \<longrightarrow> uHoverState (shader_uniforms (frames s1 fs))
            \<le> uHoverState (shader_uniforms (frames s1 (fs @ gs))))
   \<and> (\<not> hovered s2 \<and> 0 \<le> uHoverState (shader_uniforms s2) \<and> uHoverState (shader_uniforms s2) \<le> 1
        \<longrightarrow> uHoverState (shader_uniforms (frames s2 (fs @ gs)))
            \<le> uHoverState (shader_uniforms (frames s2 fs)))"
proof (intro conjI impI allI)
  show "uHoverState (shader_uniforms (initial_state c a)) = 0" by (rule initial_hover)
next
  fix evs
  show "0 \<le> uHoverState (shader_uniforms (run (initial_state c a) evs))"
    and "uHoverState (shader_uniforms (run (initial_state c a) evs)) \<le> 1"
    using reachable_unit_interval [of c a evs] by simp_all
next
  assume "0 \<le> uHoverState (shader_uniforms s) \<and> uHoverState (shader_uniforms s) \<le> 1"
  then show "0 \<le> uHoverState (shader_uniforms (useFrame s e p))"
    and "uHoverState (shader_uniforms (useFrame s e p)) \<le> 1"
    using useFrame_unit_interval [of s e p] by simp_all
next
  assume h: "hovered s1 \<and> 0 \<le> uHoverState (shader_uniforms s1) \<and> uHoverState (shader_uniforms s1) \<le> 1"
  then have "hovered (frames s1 fs)" by (simp add: frames_flags)
  moreover have "0 \<le> uHoverState (shader_uniforms (frames s1 fs))"
    "uHoverState (shader_uniforms (frames s1 fs)) \<le> 1"
    using h frames_unit_interval [of s1 fs] by simp_all
  ultimately show "uHoverState (shader_uniforms (frames s1 fs))
      \<le> uHoverState (shader_uniforms (frames s1 (fs @ gs)))"
    unfolding frames_append by (rule frames_rising)
next
  assume h: "\<not> hovered s2 \<and> 0 \<le> uHoverState (shader_uniforms s2) \<and> uHoverState (shader_uniforms s2) \<le> 1"
  then have "\<not> hovered (frames s2 fs)" by (simp add: frames_flags)
  moreover have "0 \<le> uHoverState (shader_uniforms (frames s2 fs))"
    "uHoverState (shader_uniforms (frames s2 fs)) \<le> 1"
    using h frames_unit_interval [of s2 fs] by simp_all
  ultimately show "uHoverState (shader_uniforms (frames s2 (fs @ gs)))
      \<le> uHoverState (shader_uniforms (frames s2 fs))"
    unfolding frames_append by (rule frames_falling)
qed


theorem hover_state_unit_interval_monotone_witness:
  "(let s1 = onPointerOver (initial_state (Vec3 1 1 1) True);
        s2 = onPointerOut s1;
        f = (0, Vec2 0 0)
    in (0 \<le> uHoverState (shader_uniforms s1) \<and> uHoverState (shader_uniforms s1) \<le> 1)
       \<and> (0 \<le> uHoverState (shader_uniforms (useFrame s1 0 (Vec2 0 0)))
            \<and> uHoverState (shader_uniforms (useFrame s1 0 (Vec2 0 0))) \<le> 1)
       \<and> hovered s1
       \<and> uHoverState (shader_uniforms (frames s1 [f])) \<le> uHoverState (shader_uniforms (frames s1 ([f] @ [f])))
       \<and> \<not> hovered s2
       \<and> (0 \<le> uHoverState (shader_uniforms s2) \<and> uHoverState (shader_uniforms s2) \<le> 1)
       \<and> uHoverState (shader_uniforms (frames s2 ([f] @ [f]))) \<le> uHoverState (shader_uniforms (frames s2 [f])))"
  using hover_state_unit_interval_monotone
    [of "Vec3 1 1 1" True "onPointerOver (initial_state (Vec3 1 1 1) True)" 0 "Vec2 0 0"
        "onPointerOver (initial_state (Vec3 1 1 1) True)" "[(0, Vec2 0 0)]" "[(0, Vec2 0 0)]"
        "onPointerOut (onPointerOver (initial_state (Vec3 1 1 1) True))"]
  by (simp add: Let_def onPointerOver_def onPointerOut_def initial_state_def initial_uniforms_def)

lemma frames_decay:
  assumes "material_attached s" "\<not> hovered s"
  shows "uHoverState (shader_uniforms (frames s fs)) = uHoverState (shader_uniforms s) * 0.9 ^ length fs"
  using assms
proof (induction s fs rule: frames.induct)
  case (1 s)
  then show ?case by simp
next
  case (2 s e p fs)
  have "uHoverState (shader_uniforms (useFrame s e p)) = uHoverState (shader_uniforms s) * 0.9"
    using "2.prems" by (simp add: useFrame_hover lerp_def)
  then show ?case using "2.IH" "2.prems" by (simp add: useFrame_flags)
qed

text \<open>
  Claim C8. When the pointer leaves at hover intensity 1, ten frame ticks of the
  smoothing update later the hover intensity is \<open>0.9 ^ 10\<close>, within \<open>0.001\<close> of \<open>0.349\<close>.
\<close>
theorem hover_decay_ten_ticks:
  assumes "material_attached s" "hovered s" "uHoverState (shader_uniforms s) = 1" "length fs = 10"
  shows "uHoverState (shader_uniforms (frames (onPointerOut s) fs)) = 1.0 * 0.9 ^ 10
       \<and> \<bar>uHoverState (shader_uniforms (frames (onPointerOut s) fs)) - 0.349\<bar> \<le> 0.001"
proof -
  have "uHoverState (shader_uniforms (frames (onPointerOut s) fs))
      = uHoverState (shader_uniforms (onPointerOut s)) * 0.9 ^ length fs"
    by (rule frames_decay) (use assms in \<open>simp_all add: onPointerOut_def\<close>)
  then have "uHoverState (shader_uniforms (frames (onPointerOut s) fs)) = 0.9 ^ 10"
    using assms by (simp add: onPointerOut_def)
  then show ?thesis by (simp add: power_def)
qed

theorem hover_decay_ten_ticks_witness:
  "(let s = (onPointerOver (initial_state (Vec3 1 1 1) True))
              \<lparr> shader_uniforms := (initial_uniforms (Vec3 1 1 1))\<lparr> uHoverState := 1 \<rparr> \<rparr>;
        fs = map (\<lambda>t. (t, Vec2 0 0)) [1, 2, 3, 4, 5, 6, 7, 8, 9, 10]
    in material_attached s \<and> hovered s \<and> uHoverState (shader_uniforms s) = 1 \<and> length fs = 10
       \<and> \<bar>uHoverState (shader_uniforms (frames (onPointerOut s) fs)) - 0.349\<bar> \<le> 0.001)"
proof -
  let ?s = "(onPointerOver (initial_state (Vec3 1 1 1) True))
              \<lparr> shader_uniforms := (initial_uniforms (Vec3 1 1 1))\<lparr> uHoverState := 1 \<rparr> \<rparr>"
  let ?fs = "map (\<lambda>t. (t, Vec2 0 0)) [1, 2, 3, 4, 5, 6, 7, 8, 9, 10 :: real]"
  have h: "material_attached ?s" "hovered ?s" "uHoverState (shader_uniforms ?s) = 1" "length ?fs = 10"
    by (simp_all add: onPointerOver_def initial_state_def)
  show ?thesis
    unfolding Let_def using h hover_decay_ten_ticks [OF h] by blast
qed

lemma frames_mouse:
  assumes "\<not> hovered s"
  shows "uMouse (shader_uniforms (frames s fs)) = uMouse (shader_uniforms s)"
  using assms
  by (induction s fs rule: frames.induct) (simp_all add: useFrame_flags useFrame_mouse)

text \<open>
  Claim C9. The pointer-out handler clears \<open>hovered\<close> and leaves \<open>uMouse\<close> as it was;
  through any number of following frame ticks \<open>hovered\<close> stays false and \<open>uMouse\<close>
  keeps that value.
\<close>
theorem pointer_out_retains_mouse:
  "hovered (onPointerOut s) = False
   \<and> uMouse (shader_uniforms (onPointerOut s)) = uMouse (shader_uniforms s)
   \<and> hovered (frames (onPointerOut s) fs) = False
   \<and> uMouse (shader_uniforms (frames (onPointerOut s) fs)) = uMouse (shader_uniforms s)"
proof -
  have a: "\<not> hovered (onPointerOut s)" by (simp add: onPointerOut_def)
  have b: "uMouse (shader_uniforms (onPointerOut s)) = uMouse (shader_uniforms s)"
    by (simp add: onPointerOut_def)
  show ?thesis using a b frames_mouse [OF a, of fs] by (simp add: frames_flags)
qed

subsection \<open>Ripple gating and falloff\<close>

lemma points_modelPosition:
  "modelPosition points_modelMatrix (Vec3 x y 0) = Vec4 x (y / 2) (- (sqrt 3 * y / 2)) 1"
proof -
  have "cos (- pi / 3) = 1 / 2" "sin (- pi / 3) = - (sqrt 3 / 2)"
    using cos_60 sin_60 cos_minus [of "pi / 3"] sin_minus [of "pi / 3"] by simp_all
  then show ?thesis
    by (simp add: modelPosition_def points_modelMatrix_def mat_mul_vec_def dot4_def)
qed

text \<open>
  Claim C6, as the shader has it. At hover intensity 0 the ripple term is exactly 0 for
  every vertex, time and pointer position, and the displaced z is the world base z plus
  the base-wave elevation; for a vertex whose world base z is 0 it is the base-wave
  elevation alone.
\<close>
theorem ripple_gated_displacement:
  assumes "uHoverState u = 0"
  shows "distortion u mp = 0
       \<and> displaced u mp = Vec4 (v4x mp) (v4y mp) (v4z mp + elevation u mp) (v4w mp)
       \<and> vElevation (vertex_main u modelMatrix viewMatrix projectionMatrix position uv)
           = v4z (modelPosition modelMatrix position) + elevation u (modelPosition modelMatrix position)
       \<and> (v4z (modelPosition modelMatrix0 position0) = 0 \<longrightarrow>
            vElevation (vertex_main u modelMatrix0 viewMatrix projectionMatrix position0 uv)
              = elevation u (modelPosition modelMatrix0 position0))"
  using assms by (simp add: distortion_def displaced_def vertex_main_def Let_def)

theorem ripple_gated_displacement_witness:
  "(let u = (initial_uniforms (Vec3 1 1 1))\<lparr> uTime := 7, uMouse := Vec2 0.1 0.2 \<rparr>
    in uHoverState u = 0
       \<and> distortion u (modelPosition points_modelMatrix (Vec3 0 10 0)) = 0
       \<and> vElevation (vertex_main u points_modelMatrix mat4_identity mat4_identity (Vec3 0 10 0) (Vec2 0 0))
           = v4z (modelPosition points_modelMatrix (Vec3 0 10 0))
             + elevation u (modelPosition points_modelMatrix (Vec3 0 10 0))
       \<and> v4z (modelPosition mat4_identity (Vec3 2 1 0)) = 0
       \<and> vElevation (vertex_main u mat4_identity mat4_identity mat4_identity (Vec3 2 1 0) (Vec2 0 0))
           = elevation u (modelPosition mat4_identity (Vec3 2 1 0)))"
proof -
  let ?u = "(initial_uniforms (Vec3 1 1 1))\<lparr> uTime := 7, uMouse := Vec2 0.1 0.2 \<rparr>"
  have h: "uHoverState ?u = 0" by (simp add: initial_uniforms_def)
  have z: "v4z (modelPosition mat4_identity (Vec3 2 1 0)) = 0"
    by (simp add: modelPosition_def mat4_identity_def mat_mul_vec_def dot4_def)
  show ?thesis
    unfolding Let_def
    using h z ripple_gated_displacement [OF h, of "modelPosition points_modelMatrix (Vec3 0 10 0)"
        points_modelMatrix mat4_identity mat4_identity "Vec3 0 10 0" "Vec2 0 0"
        mat4_identity "Vec3 2 1 0"]
    by blast
qed

text \<open>
  Claim C6 as stated asks for the displaced z to be the base-wave elevation alone for
  every vertex. The lattice vertex \<open>(0, 10, 0)\<close> of the rotated plane has world base z
  \<open>- 5 * sqrt 3\<close>, and at hover intensity 0 its displaced z differs from the base-wave
  elevation by that amount.
\<close>
theorem displaced_z_off_plane:
  "uHoverState (initial_uniforms (Vec3 1 1 1)) = 0
   \<and> vElevation (vertex_main (initial_uniforms (Vec3 1 1 1)) points_modelMatrix mat4_identity
        mat4_identity (Vec3 0 10 0) (Vec2 0 0))
     = elevation (initial_uniforms (Vec3 1 1 1)) (modelPosition points_modelMatrix (Vec3 0 10 0))
       - 5 * sqrt 3
   \<and> vElevation (vertex_main (initial_uniforms (Vec3 1 1 1)) points_modelMatrix mat4_identity
        mat4_identity (Vec3 0 10 0) (Vec2 0 0))
     \<noteq> elevation (initial_uniforms (Vec3 1 1 1)) (modelPosition points_modelMatrix (Vec3 0 10 0))"
proof -
  let ?u = "initial_uniforms (Vec3 1 1 1)"
  let ?mp = "modelPosition points_modelMatrix (Vec3 0 10 0)"
  have h: "uHoverState ?u = 0" by (simp add: initial_uniforms_def)
  then have d: "distortion ?u ?mp = 0" by (simp add: distortion_def)
  have z: "v4z ?mp = - 5 * sqrt 3" by (simp add: points_modelPosition)
  have "vElevation (vertex_main ?u points_modelMatrix mat4_identity mat4_identity (Vec3 0 10 0) (Vec2 0 0))
      = v4z ?mp + (elevation ?u ?mp + distortion ?u ?mp)"
    by (simp add: vertex_main_def Let_def displaced_def)
  then have e: "vElevation (vertex_main ?u points_modelMatrix mat4_identity mat4_identity (Vec3 0 10 0) (Vec2 0 0))
      = elevation ?u ?mp - 5 * sqrt 3"
    using d z by simp
  have "5 * sqrt 3 \<noteq> 0" by simp
  then show ?thesis using h e by simp
qed

text \<open>
  Claim C7. For a distance \<open>d \<ge> 0\<close> the influence is \<open>clamp (1 - d / 3) 0 1\<close>: it is 1
  at distance 0, it is 0 from distance 3 on, and \<open>1 - d / 3\<close> up to distance 3.
\<close>
theorem influence_falloff:
  assumes "0 \<le> d"
  shows "influence d = min (max (1 - d / 3) 0) 1
       \<and> influence 0 = 1
       \<and> (3 \<le> d \<longrightarrow> influence d = 0)
       \<and> (d \<le> 3 \<longrightarrow> influence d = 1 - d / 3)"
  using assms by (simp add: influence_def)

theorem influence_falloff_witness:
  "(0::real) \<le> 3 \<and> (3::real) \<le> 3 \<and> influence 3 = min (max (1 - 3 / 3) 0) 1 \<and> influence 3 = 0
   \<and> influence 3 = 1 - 3 / 3"
  using influence_falloff [of 3] by simp

subsection \<open>Displacement\<close>

lemma length_vec2_Vec2: "length_vec2 (Vec2 a b) = sqrt (a\<^sup>2 + b\<^sup>2)"
  by (simp add: length_vec2_def power2_eq_square)

lemma dist_mouse_formula:
  "dist_mouse u (Vec4 x y z w) = sqrt ((v2x (uMouse u) * 15 - x)\<^sup>2 + (v2y (uMouse u) * 10 - y)\<^sup>2)"
  by (simp add: dist_mouse_def interactionVec_def vec2_mul_def vec2_sub_def length_vec2_Vec2)

text \<open>
  Claim C1. For a vertex whose world base position is \<open>(x, y, 0)\<close> the displaced position
  is \<open>(x, y, z')\<close> with
  \<open>z' = amplitude * sin (x * frequency + t * speed)
       + 0.5 * amplitude * sin (y * frequency * 0.5 + t * speed * 0.5)
       + sin (d * 3 - t * 5) * max 0 (1 - d / 3) * 2 * h\<close>,
  where \<open>d\<close> is the distance between \<open>mouse * (15, 10)\<close> and \<open>(x, y)\<close>; the same \<open>z'\<close> is
  handed to the fragment shader as \<open>vElevation\<close>.
\<close>
theorem displacement_formula:
  assumes "modelPosition modelMatrix position = Vec4 x y 0 w"
  shows "(let t = uTime u; h = uHoverState u;
              d = sqrt ((v2x (uMouse u) * 15 - x)\<^sup>2 + (v2y (uMouse u) * 10 - y)\<^sup>2);
              z' = uAmplitude u * sin (x * uFrequency u + t * uSpeed u)
                   + 0.5 * uAmplitude u * sin (y * uFrequency u * 0.5 + t * uSpeed u * 0.5)
                   + sin (d * 3.0 - t * 5.0) * max 0 (1 - d / 3.0) * 2.0 * h
          in displaced u (modelPosition modelMatrix position) = Vec4 x y z' w
             \<and> vElevation (vertex_main u modelMatrix viewMatrix projectionMatrix position uv) = z')"
  using assms
  by (simp add: Let_def vertex_main_def displaced_def elevation_def distortion_def influence_def
      dist_mouse_formula)

theorem displacement_formula_witness:
  "(let u = (initial_uniforms (Vec3 1 1 1))\<lparr> uTime := 2, uMouse := Vec2 0.2 0.1, uHoverState := 0.5 \<rparr>
    in modelPosition mat4_identity (Vec3 3 1 0) = Vec4 3 1 0 1
       \<and> displaced u (modelPosition mat4_identity (Vec3 3 1 0))
           = Vec4 3 1 (1.2 * sin (3 * 0.5 + 2 * 0.8) + 0.5 * 1.2 * sin (1 * 0.5 * 0.5 + 2 * 0.8 * 0.5)
                       + sin (0 * 3.0 - 2 * 5.0) * max 0 (1 - 0 / 3.0) * 2.0 * 0.5) 1)"
proof -
  let ?u = "(initial_uniforms (Vec3 1 1 1))\<lparr> uTime := 2, uMouse := Vec2 0.2 0.1, uHoverState := 0.5 \<rparr>"
  have h: "modelPosition mat4_identity (Vec3 3 1 0) = Vec4 3 1 0 1"
    by (simp add: modelPosition_def mat4_identity_def mat_mul_vec_def dot4_def)
  show ?thesis
    using h displacement_formula [OF h, of ?u mat4_identity mat4_identity "Vec2 0 0"]
    by (simp add: Let_def initial_uniforms_def)
qed


subsection \<open>Fragment shape\<close>

lemma distance_same_row: "distance_vec2 (Vec2 a b) (Vec2 c b) = \<bar>a - c\<bar>"
  by (simp add: distance_vec2_def vec2_sub_def length_vec2_def flip: power2_eq_square)

text \<open>
  Claim C4 as stated asks for a fragment at distance exactly \<open>0.5\<close> to be discarded. The
  fragment at point coordinate \<open>(1, 0.5)\<close> is at that distance and is drawn.
\<close>
theorem fragment_at_half_not_discarded:
  "distance_vec2 (Vec2 1 0.5) (Vec2 0.5 0.5) = 0.5
   \<and> fragment_main (Vec3 1 1 1) 0 (Vec2 1 0.5) = Some (Vec4 1 1 1 0.8)"
  by (simp add: fragment_main_def fragment_alpha_def Let_def distance_same_row)

text \<open>
  Claim C4, as the shader has it. A fragment is discarded exactly when its distance from
  the centre of the point exceeds \<open>0.5\<close>: a fragment at distance exactly \<open>0.5\<close> is kept,
  and so is one at distance \<open>0.49\<close>.
\<close>
theorem fragment_discard_iff:
  "(fragment_main color vElev p = None \<longleftrightarrow> distance_vec2 p (Vec2 0.5 0.5) > 0.5)
   \<and> (distance_vec2 p1 (Vec2 0.5 0.5) = 0.5 \<longrightarrow> fragment_main color vElev p1 \<noteq> None)
   \<and> (distance_vec2 p2 (Vec2 0.5 0.5) = 0.49 \<longrightarrow> fragment_main color vElev p2 \<noteq> None)"
  by (simp add: fragment_main_def Let_def)

theorem fragment_discard_iff_witness:
  "distance_vec2 (Vec2 1 0.5) (Vec2 0.5 0.5) = 0.5
   \<and> fragment_main (Vec3 1 1 1) 0 (Vec2 1 0.5) \<noteq> None
   \<and> distance_vec2 (Vec2 0.99 0.5) (Vec2 0.5 0.5) = 0.49
   \<and> fragment_main (Vec3 1 1 1) 0 (Vec2 0.99 0.5) \<noteq> None
   \<and> distance_vec2 (Vec2 1 1) (Vec2 0.5 0.5) > 0.5
   \<and> fragment_main (Vec3 1 1 1) 0 (Vec2 1 1) = None"
proof -
  have a: "distance_vec2 (Vec2 1 0.5) (Vec2 0.5 0.5) = 0.5"
    and b: "distance_vec2 (Vec2 0.99 0.5) (Vec2 0.5 0.5) = 0.49"
    by (simp_all add: distance_same_row)
  have "distance_vec2 (Vec2 1 1) (Vec2 0.5 0.5) = sqrt (1 / 2)"
    by (simp add: distance_vec2_def vec2_sub_def length_vec2_def)
  moreover have "sqrt (1 / 4) < sqrt (1 / 2)"
    by (simp only: real_sqrt_less_iff)
  moreover have "sqrt (1 / 4) = 1 / 2"
    using real_sqrt_abs [of "1 / 2"] by (simp add: power2_eq_square)
  ultimately have c: "distance_vec2 (Vec2 1 1) (Vec2 0.5 0.5) > 0.5" by simp
  show ?thesis
    using a b c fragment_discard_iff [of "Vec3 1 1 1" 0 "Vec2 1 1" "Vec2 1 0.5" "Vec2 0.99 0.5"]
    by blast
qed

subsection \<open>Point size\<close>

text \<open>
  Claim C5 as stated asks for the depth to be clamped away from zero. The vertex at the
  origin, seen through identity matrices at time 0, has view-space depth 0, and its point
  size is a division by zero.
\<close>
theorem point_size_divides_by_zero:
  "v4z (mat_mul_vec mat4_identity
          (displaced (initial_uniforms (Vec3 1 1 1)) (modelPosition mat4_identity (Vec3 0 0 0)))) = 0
   \<and> gl_PointSize (vertex_main (initial_uniforms (Vec3 1 1 1)) mat4_identity mat4_identity mat4_identity
        (Vec3 0 0 0) (Vec2 0 0)) = None"
  by (simp add: vertex_main_def Let_def pointSize_def glsl_div_def displaced_def elevation_def
      distortion_def initial_uniforms_def modelPosition_def mat4_identity_def mat_mul_vec_def dot4_def)

text \<open>
  Claim C5, as the shader has it. The point size is \<open>3 * (15 / - viewZ)\<close> with no clamp
  of the depth: it is defined exactly for a vertex whose view-space depth is not 0, and at
  depth 0 the divisor of the division is zero.
\<close>
theorem point_size_unguarded:
  "gl_PointSize (vertex_main u modelMatrix viewMatrix projectionMatrix position uv) =
     (let viewZ = v4z (mat_mul_vec viewMatrix (displaced u (modelPosition modelMatrix position)))
      in if viewZ = 0 then None else Some (3.0 * (15.0 / - viewZ)))"
  by (simp add: vertex_main_def Let_def pointSize_def glsl_div_def)

theorem point_size_unguarded_witness:
  "gl_PointSize (vertex_main (initial_uniforms (Vec3 1 1 1)) mat4_identity mat4_identity mat4_identity
        (Vec3 0 0 (-15)) (Vec2 0 0)) = Some 3
   \<and> gl_PointSize (vertex_main (initial_uniforms (Vec3 1 1 1)) mat4_identity mat4_identity mat4_identity
        (Vec3 0 0 0) (Vec2 0 0)) = None"
  using point_size_unguarded [of "initial_uniforms (Vec3 1 1 1)" mat4_identity mat4_identity mat4_identity
        "Vec3 0 0 (-15)" "Vec2 0 0"]
    point_size_unguarded [of "initial_uniforms (Vec3 1 1 1)" mat4_identity mat4_identity mat4_identity
        "Vec3 0 0 0" "Vec2 0 0"]
  by (simp add: Let_def displaced_def elevation_def
      distortion_def initial_uniforms_def modelPosition_def mat4_identity_def mat_mul_vec_def dot4_def)


subsection \<open>Elevation and alpha ranges\<close>

lemma step_amplitude: "uAmplitude (shader_uniforms (step s ev)) = uAmplitude (shader_uniforms s)"
  by (cases ev) (simp_all add: useFrame_amplitude onPointerOver_def onPointerOut_def onPointerMove_def)

lemma run_amplitude: "uAmplitude (shader_uniforms (run s evs)) = uAmplitude (shader_uniforms s)"
  by (induction evs arbitrary: s) (simp_all add: step_amplitude)

lemma reachable_amplitude: "uAmplitude (shader_uniforms (run (initial_state c a) evs)) = 1.2"
  by (simp add: run_amplitude initial_state_def initial_uniforms_def)

lemma displacement_increment: "v4z (displaced u mp) - v4z mp = elevation u mp + distortion u mp"
  by (simp add: displaced_def)

lemma displacement_bound:
  assumes "0 \<le> uHoverState u" "uHoverState u \<le> 1"
  shows "\<bar>elevation u mp + distortion u mp\<bar> \<le> 1.5 * \<bar>uAmplitude u\<bar> + 2"
proof -
  have "\<bar>elevation u mp + distortion u mp\<bar> \<le> \<bar>elevation u mp\<bar> + \<bar>distortion u mp\<bar>"
    by (rule abs_triangle_ineq)
  moreover have "\<bar>distortion u mp\<bar> \<le> 2 * uHoverState u"
    using assms(1) by (rule distortion_bound)
  ultimately show ?thesis
    using elevation_bound [of u mp] assms(2) by linarith
qed

text \<open>
  Claim C2. For a non-negative amplitude the base-wave elevation satisfies
  \<open>\<bar>e\<bar> \<le> 1.5 * amplitude\<close>, and it is the whole displacement at hover intensity 0; for a
  hover intensity in \<open>[0, 1]\<close> the displacement is at most \<open>amplitude * 1.5 + 2\<close> in
  magnitude. In every state the component can reach (amplitude \<open>1.2\<close>, hover intensity in
  \<open>[0, 1]\<close>) both bounds hold.
\<close>
theorem elevation_bounded:
  "(0 \<le> uAmplitude u \<longrightarrow> \<bar>elevation u mp\<bar> \<le> 1.5 * uAmplitude u)
   \<and> (0 \<le> uAmplitude u \<and> uHoverState u = 0 \<longrightarrow>
        v4z (displaced u mp) - v4z mp = elevation u mp
        \<and> \<bar>v4z (displaced u mp) - v4z mp\<bar> \<le> 1.5 * uAmplitude u)
   \<and> (0 \<le> uAmplitude u \<and> 0 \<le> uHoverState u \<and> uHoverState u \<le> 1 \<longrightarrow>
        \<bar>v4z (displaced u mp) - v4z mp\<bar> \<le> uAmplitude u * 1.5 + 2.0)
   \<and> (\<forall>evs. let ur = shader_uniforms (run (initial_state c a) evs)
             in \<bar>elevation ur mp\<bar> \<le> 1.5 * uAmplitude ur
                \<and> \<bar>v4z (displaced ur mp) - v4z mp\<bar> \<le> uAmplitude ur * 1.5 + 2.0)"
proof (intro conjI impI allI)
  assume "0 \<le> uAmplitude u"
  then show "\<bar>elevation u mp\<bar> \<le> 1.5 * uAmplitude u"
    using elevation_bound [of u mp] by simp
next
  assume h: "0 \<le> uAmplitude u \<and> uHoverState u = 0"
  then show e: "v4z (displaced u mp) - v4z mp = elevation u mp"
    by (simp add: displacement_increment distortion_def)
  show "\<bar>v4z (displaced u mp) - v4z mp\<bar> \<le> 1.5 * uAmplitude u"
    using h e elevation_bound [of u mp] by simp
next
  assume h: "0 \<le> uAmplitude u \<and> 0 \<le> uHoverState u \<and> uHoverState u \<le> 1"
  then show "\<bar>v4z (displaced u mp) - v4z mp\<bar> \<le> uAmplitude u * 1.5 + 2.0"
    using displacement_bound [of u mp] by (simp add: displacement_increment)
next
  fix evs
  let ?ur = "shader_uniforms (run (initial_state c a) evs)"
  have a: "uAmplitude ?ur = 1.2" by (rule reachable_amplitude)
  have r: "0 \<le> uHoverState ?ur" "uHoverState ?ur \<le> 1"
    using reachable_unit_interval [of c a evs] by simp_all
  have "\<bar>elevation ?ur mp\<bar> \<le> 1.5 * uAmplitude ?ur"
    using elevation_bound [of ?ur mp] a by simp
  moreover have "\<bar>v4z (displaced ?ur mp) - v4z mp\<bar> \<le> uAmplitude ?ur * 1.5 + 2.0"
    using displacement_bound [OF r, of mp] a by (simp add: displacement_increment)
  ultimately show "let ur = ?ur in \<bar>elevation ur mp\<bar> \<le> 1.5 * uAmplitude ur
      \<and> \<bar>v4z (displaced ur mp) - v4z mp\<bar> \<le> uAmplitude ur * 1.5 + 2.0"
    by (simp add: Let_def)
qed

theorem elevation_bounded_witness:
  "(let u0 = initial_uniforms (Vec3 1 1 1);
        u1 = u0\<lparr> uTime := 2, uMouse := Vec2 0.2 0.1, uHoverState := 0.5 \<rparr>;
        mp = Vec4 3 1 0 1
    in 0 \<le> uAmplitude u0 \<and> uHoverState u0 = 0
       \<and> \<bar>elevation u0 mp\<bar> \<le> 1.5 * uAmplitude u0
       \<and> \<bar>v4z (displaced u0 mp) - v4z mp\<bar> \<le> 1.5 * uAmplitude u0
       \<and> 0 \<le> uAmplitude u1 \<and> 0 \<le> uHoverState u1 \<and> uHoverState u1 \<le> 1
       \<and> \<bar>v4z (displaced u1 mp) - v4z mp\<bar> \<le> uAmplitude u1 * 1.5 + 2.0)"
proof -
  let ?u0 = "initial_uniforms (Vec3 1 1 1)"
  let ?u1 = "?u0\<lparr> uTime := 2, uMouse := Vec2 0.2 0.1, uHoverState := 0.5 \<rparr>"
  have h0: "0 \<le> uAmplitude ?u0" "uHoverState ?u0 = 0"
    and h1: "0 \<le> uAmplitude ?u1" "0 \<le> uHoverState ?u1" "uHoverState ?u1 \<le> 1"
    by (simp_all add: initial_uniforms_def)
  show ?thesis
    unfolding Let_def
    using h0 h1 elevation_bounded [of ?u0 "Vec4 3 1 0 1"] elevation_bounded [of ?u1 "Vec4 3 1 0 1"]
    by blast
qed


lemma fragment_main_alpha:
  "fragment_main color vElev p = Some c \<Longrightarrow> v4w c = 0.8 + vElev * 0.1"
  by (auto simp: fragment_main_def fragment_alpha_def Let_def split: if_splits)

lemma vElevation_plane:
  assumes "v4z (modelPosition modelMatrix position) = 0"
  shows "vElevation (vertex_main u modelMatrix viewMatrix projectionMatrix position uv)
       = elevation u (modelPosition modelMatrix position) + distortion u (modelPosition modelMatrix position)"
  using assms by (simp add: vertex_main_def Let_def displaced_def)

lemma crest_elevation:
  "vElevation (vertex_main crest_uniforms mat4_identity mat4_identity mat4_identity crest_position (Vec2 0 0))
     = 3.8"
proof -
  let ?mp = "modelPosition mat4_identity crest_position"
  have mp: "?mp = Vec4 (13 * pi / 25) (38 * pi / 25) 0 1"
    by (simp add: modelPosition_def crest_position_def mat4_identity_def mat_mul_vec_def dot4_def)
  have d: "dist_mouse crest_uniforms ?mp = 0"
    by (simp add: mp dist_mouse_def interactionVec_def vec2_mul_def vec2_sub_def length_vec2_def
        crest_uniforms_def)
  have "uTime crest_uniforms * 5 = 3 / 2 * pi" by (simp add: crest_uniforms_def)
  then have "sin (uTime crest_uniforms * 5) = - 1" by (simp only: sin_3over2_pi)
  then have "sin (dist_mouse crest_uniforms ?mp * 3 - uTime crest_uniforms * 5) = 1"
    by (simp add: d)
  moreover have "uHoverState crest_uniforms = 1" by (simp add: crest_uniforms_def)
  ultimately have r: "distortion crest_uniforms ?mp = 2"
    unfolding distortion_def by (simp add: d influence_def)
  have "13 * pi / 25 * (1 / 2) + 3 * pi / 10 * (4 / 5) = pi / 2" by simp
  moreover have "38 * pi / 25 * (1 / 2) * (1 / 2) + 3 * pi / 10 * (4 / 5) * (1 / 2) = pi / 2" by simp
  ultimately have e: "elevation crest_uniforms ?mp = 1.8"
    by (simp add: elevation_def mp crest_uniforms_def initial_uniforms_def)
  have "v4z ?mp = 0" by (simp add: mp)
  then show ?thesis using e r by (simp add: vElevation_plane)
qed

text \<open>
  Claim C10. With amplitude \<open>1.2\<close>, a hover intensity in \<open>[0, 1]\<close> and a vertex whose world
  base position has \<open>z = 0\<close>, the alpha of every drawn fragment lies in \<open>[0.42, 1.18]\<close> and
  is positive, whatever the time and the pointer position; and some such vertex has a
  fragment whose alpha exceeds 1.
\<close>
theorem fragment_alpha_range:
  "(uAmplitude u = 1.2 \<and> v4z (modelPosition modelMatrix position) = 0
      \<and> 0 \<le> uHoverState u \<and> uHoverState u \<le> 1
      \<and> fragment_main (uColor u)
           (vElevation (vertex_main u modelMatrix viewMatrix projectionMatrix position uv)) p = Some c
    \<longrightarrow> 0.42 \<le> v4w c \<and> v4w c \<le> 1.18 \<and> 0 < v4w c)
   \<and> (\<exists>u' position' c'.
         uAmplitude u' = 1.2 \<and> v4z (modelPosition mat4_identity position') = 0
         \<and> 0 \<le> uHoverState u' \<and> uHoverState u' \<le> 1
         \<and> \<bar>v2x (uMouse u')\<bar> \<le> 1 \<and> \<bar>v2y (uMouse u')\<bar> \<le> 1
         \<and> fragment_main (uColor u')
              (vElevation (vertex_main u' mat4_identity mat4_identity mat4_identity position' (Vec2 0 0)))
              (Vec2 0.5 0.5) = Some c'
         \<and> 1 < v4w c')"
proof (intro conjI impI)
  assume h: "uAmplitude u = 1.2 \<and> v4z (modelPosition modelMatrix position) = 0
      \<and> 0 \<le> uHoverState u \<and> uHoverState u \<le> 1
      \<and> fragment_main (uColor u)
           (vElevation (vertex_main u modelMatrix viewMatrix projectionMatrix position uv)) p = Some c"
  let ?mp = "modelPosition modelMatrix position"
  let ?z = "vElevation (vertex_main u modelMatrix viewMatrix projectionMatrix position uv)"
  have z: "?z = elevation u ?mp + distortion u ?mp"
    using h by (simp add: vElevation_plane)
  have "\<bar>elevation u ?mp + distortion u ?mp\<bar> \<le> 1.5 * \<bar>uAmplitude u\<bar> + 2"
    using h by (intro displacement_bound) simp_all
  then have b: "\<bar>?z\<bar> \<le> 3.8" using h z by simp
  have a: "v4w c = 0.8 + ?z * 0.1" using h fragment_main_alpha by blast
  show "0.42 \<le> v4w c" "v4w c \<le> 1.18" "0 < v4w c" using a b by simp_all
next
  let ?z = "vElevation (vertex_main crest_uniforms mat4_identity mat4_identity mat4_identity crest_position (Vec2 0 0))"
  let ?c = "Vec4 1 1 1 (1.18::real)"
  have pi4: "pi < 4" using pi_less_4 by simp
  have "uColor crest_uniforms = Vec3 1 1 1"
    by (simp add: crest_uniforms_def initial_uniforms_def)
  then have "fragment_main (uColor crest_uniforms) ?z (Vec2 0.5 0.5) = Some ?c"
    by (simp add: crest_elevation fragment_main_def fragment_alpha_def Let_def distance_vec2_def
        vec2_sub_def length_vec2_def)
  moreover have "uAmplitude crest_uniforms = 1.2" "0 \<le> uHoverState crest_uniforms"
    "uHoverState crest_uniforms \<le> 1"
    by (simp_all add: crest_uniforms_def initial_uniforms_def)
  moreover have "v4z (modelPosition mat4_identity crest_position) = 0"
    by (simp add: modelPosition_def crest_position_def mat4_identity_def mat_mul_vec_def dot4_def)
  moreover have "\<bar>v2x (uMouse crest_uniforms)\<bar> \<le> 1" "\<bar>v2y (uMouse crest_uniforms)\<bar> \<le> 1"
    using pi4 by (simp_all add: crest_uniforms_def)
  moreover have "1 < v4w ?c" by simp
  ultimately show "\<exists>u' position' c'.
         uAmplitude u' = 1.2 \<and> v4z (modelPosition mat4_identity position') = 0
         \<and> 0 \<le> uHoverState u' \<and> uHoverState u' \<le> 1
         \<and> \<bar>v2x (uMouse u')\<bar> \<le> 1 \<and> \<bar>v2y (uMouse u')\<bar> \<le> 1
         \<and> fragment_main (uColor u')
              (vElevation (vertex_main u' mat4_identity mat4_identity mat4_identity position' (Vec2 0 0)))
              (Vec2 0.5 0.5) = Some c'
         \<and> 1 < v4w c'"
    by blast
qed

theorem fragment_alpha_range_witness:
  "(let u = initial_uniforms (Vec3 1 1 1);
        z = vElevation (vertex_main u mat4_identity mat4_identity mat4_identity (Vec3 0 0 0) (Vec2 0 0));
        c = Vec4 1 1 1 0.8
    in uAmplitude u = 1.2 \<and> v4z (modelPosition mat4_identity (Vec3 0 0 0)) = 0
       \<and> 0 \<le> uHoverState u \<and> uHoverState u \<le> 1
       \<and> fragment_main (uColor u) z (Vec2 0.5 0.5) = Some c
       \<and> 0.42 \<le> v4w c \<and> v4w c \<le> 1.18 \<and> 0 < v4w c)"
proof -
  let ?u = "initial_uniforms (Vec3 1 1 1)"
  let ?z = "vElevation (vertex_main ?u mat4_identity mat4_identity mat4_identity (Vec3 0 0 0) (Vec2 0 0))"
  let ?c = "Vec4 1 1 1 (0.8::real)"
  have mp: "modelPosition mat4_identity (Vec3 0 0 0) = Vec4 0 0 0 1"
    by (simp add: modelPosition_def mat4_identity_def mat_mul_vec_def dot4_def)
  have z: "?z = 0"
    by (simp add: vertex_main_def Let_def mp displaced_def elevation_def distortion_def
        initial_uniforms_def)
  have h: "uAmplitude ?u = 1.2" "v4z (modelPosition mat4_identity (Vec3 0 0 0)) = 0"
    "0 \<le> uHoverState ?u" "uHoverState ?u \<le> 1"
    by (simp_all add: mp initial_uniforms_def)
  have "uColor ?u = Vec3 1 1 1" by (simp add: initial_uniforms_def)
  then have f: "fragment_main (uColor ?u) ?z (Vec2 0.5 0.5) = Some ?c"
    by (simp add: z fragment_main_def fragment_alpha_def Let_def distance_vec2_def vec2_sub_def
        length_vec2_def)
  show ?thesis
    unfolding Let_def
    using h f fragment_alpha_range [of ?u mat4_identity "Vec3 0 0 0" mat4_identity mat4_identity
        "Vec2 0 0" "Vec2 0.5 0.5" ?c]
    by blast
qed

end
